theory Spec2Isabelle
  imports Complex_Main
begin

section \<open>The InfoNCE logits construction of the SimCLR notebook\<close>

text \<open>
  The method \<open>SimCLR.info_nce_loss\<close> takes the embeddings of a batch (a 2-D tensor, one
  row per augmented view) and returns the pair \<open>(logits, labels)\<close> handed to the
  cross-entropy criterion. It reads three attributes of the object: \<open>batch_size\<close>,
  \<open>temperature\<close> and \<open>device\<close>, the device to which it moves the label matrix, the
  diagonal mask and the returned labels.

  Tensors of floating-point numbers are idealised as lists of reals: a 1-D tensor is a
  list, a 2-D tensor the list of its rows. The model therefore has no rounding, no
  overflow of a norm or of the temperature to infinity, no NaN (\<open>x / 0\<close> is 0 in HOL),
  and no placement of a tensor on a device. What it keeps exactly is the structure of
  the computation: the shapes, the masks, which entry of the similarity matrix lands at
  which position of the logits, and the exceptions raised when shapes do not fit. The
  properties below are of this kind. Apart from the symmetry of the similarity matrix,
  no property relates two numbers that the program computes in different ways, and none
  speaks about devices or about the absence of side effects: a function of HOL is
  deterministic and free of effects by construction. The numbers shown for concrete
  batches are those of the real-number model; the program's float32 values agree with
  them up to rounding.
  The exceptions the tensor library raises are values of the type \<open>error\<close>.
\<close>

subsection \<open>Tensor operations used by the method\<close>

datatype error = IndexError | RuntimeError

type_synonym tensor1 = "real list"
type_synonym tensor2 = "real list list"

text \<open>
  \<open>torch.arange(n)\<close>: the integers \<open>0, ..., n - 1\<close>; a negative bound is refused.
  The library refuses as well, with the same kind of exception, a bound that does not fit
  a 64-bit integer or a tensor that does not fit the memory. These limits are not part
  of the definition; the property about rejected batches below is stated so that it
  holds whichever exception ends such a call.
\<close>

definition arange :: "int \<Rightarrow> error + int list" where
  "arange n = (if n < 0 then Inl RuntimeError else Inr (map int [0..<nat n]))"

text \<open>
  \<open>(labels.unsqueeze(0) == labels.unsqueeze(1)).float()\<close>: by broadcasting, entry
  \<open>(i, j)\<close> compares element \<open>j\<close> with element \<open>i\<close>; \<open>float\<close> turns the truth value into
  1 or 0.
\<close>

definition eq_outer :: "int list \<Rightarrow> tensor2" where
  "eq_outer ls = map (\<lambda>a. map (\<lambda>b. if b = a then 1 else 0) ls) ls"

text \<open>
  \<open>F.normalize(features, dim=1)\<close> with its defaults \<open>p = 2\<close> and \<open>eps = 1e-12\<close>: every
  row \<open>v\<close> becomes \<open>v / max(\<parallel>v\<parallel>, eps)\<close>.
\<close>

definition eps :: real where
  "eps = 1 / 10 ^ 12"

definition l2norm :: "tensor1 \<Rightarrow> real" where
  "l2norm v = sqrt (sum_list (map (\<lambda>x. x ^ 2) v))"

definition normalize_row :: "tensor1 \<Rightarrow> tensor1" where
  "normalize_row v = map (\<lambda>x. x / max (l2norm v) eps) v"

definition normalize :: "tensor2 \<Rightarrow> tensor2" where
  "normalize X = map normalize_row X"

text \<open>
  \<open>torch.matmul(A, B.T)\<close>: entry \<open>(i, j)\<close> is the dot product of row \<open>i\<close> of \<open>A\<close> with
  row \<open>j\<close> of \<open>B\<close>.
\<close>

definition dot :: "tensor1 \<Rightarrow> tensor1 \<Rightarrow> real" where
  "dot u v = sum_list (map2 (*) u v)"

definition matmul_T :: "tensor2 \<Rightarrow> tensor2 \<Rightarrow> tensor2" where
  "matmul_T A B = map (\<lambda>u. map (\<lambda>v. dot u v) B) A"

text \<open>\<open>torch.eye(n, dtype=torch.bool)\<close> and the elementwise negation \<open>~mask\<close>.\<close>

definition eye :: "nat \<Rightarrow> bool list list" where
  "eye n = map (\<lambda>i. map (\<lambda>j. i = j) [0..<n]) [0..<n]"

definition invert :: "bool list list \<Rightarrow> bool list list" where
  "invert m = map (map Not) m"

text \<open>\<open>labels.bool()\<close>: a number is true when it is not zero.\<close>

definition to_bool :: "tensor2 \<Rightarrow> bool list list" where
  "to_bool X = map (map (\<lambda>x. x \<noteq> 0)) X"

text \<open>
  The shape of a 2-D tensor. A list of rows does not record the number of columns of a
  tensor without rows; the only such tensors the method builds have shape \<open>(0, 0)\<close>.
\<close>

definition shape2 :: "'a list list \<Rightarrow> nat \<times> nat" where
  "shape2 X = (length X, case X of [] \<Rightarrow> 0 | r # _ \<Rightarrow> length r)"

text \<open>
  Indexing with a boolean mask, \<open>X[m]\<close>: the mask must have the shape of the tensor
  (otherwise \<open>IndexError\<close>); the result is the 1-D tensor of the selected entries in
  row-major order.
\<close>

definition select_row :: "'a list \<Rightarrow> bool list \<Rightarrow> 'a list" where
  "select_row r mr = map fst (filter snd (zip r mr))"

definition bool_index :: "'a list list \<Rightarrow> bool list list \<Rightarrow> error + 'a list" where
  "bool_index X m =
     (if shape2 X = shape2 m then Inr (concat (map2 select_row X m))
      else Inl IndexError)"

text \<open>
  \<open>t.view(n, -1)\<close> on a 1-D tensor: the library accepts the shape when the number of
  elements equals \<open>n\<close>, or when \<open>n > 0\<close> divides it; it then refuses to infer the free
  dimension when \<open>n = 0\<close>. Every refusal is a \<open>RuntimeError\<close>. Row \<open>i\<close> of the result
  is the \<open>i\<close>-th block of \<open>numel / n\<close> consecutive elements.
\<close>

fun chunks :: "nat \<Rightarrow> nat \<Rightarrow> 'a list \<Rightarrow> 'a list list" where
  "chunks w 0 xs = []"
| "chunks w (Suc n) xs = take w xs # chunks w n (drop w xs)"

definition view_rows :: "nat \<Rightarrow> 'a list \<Rightarrow> error + 'a list list" where
  "view_rows n xs =
     (let numel = length xs in
      if numel = n \<or> (0 < n \<and> numel mod n = 0) then
        (if n = 0 then Inl RuntimeError else Inr (chunks (numel div n) n xs))
      else Inl RuntimeError)"

text \<open>\<open>torch.cat([A, B], dim=1)\<close>: the two tensors must have the same number of rows.\<close>

definition cat_dim1 :: "'a list list \<Rightarrow> 'a list list \<Rightarrow> error + 'a list list" where
  "cat_dim1 A B = (if length A = length B then Inr (map2 (@) A B) else Inl RuntimeError)"

text \<open>\<open>torch.zeros(n, dtype=torch.long)\<close>.\<close>

definition zeros :: "nat \<Rightarrow> int list" where
  "zeros n = replicate n 0"

subsection \<open>The object and the method\<close>

text \<open>
  The attributes of a \<open>SimCLR\<close> object that \<open>info_nce_loss\<close> can see. The model, the
  optimizer, the scheduler and the criterion are objects of the surrounding libraries;
  they live in the extension part of the record.
\<close>

record SimCLR =
  device :: string
  temperature :: real
  batch_size :: int
  epochs :: int

text \<open>An exception raised by one statement ends the call: the later statements do not run.\<close>

definition and_then :: "error + 'a \<Rightarrow> ('a \<Rightarrow> error + 'b) \<Rightarrow> error + 'b" where
  "and_then r f = (case r of Inl e \<Rightarrow> Inl e | Inr x \<Rightarrow> f x)"

definition info_nce_loss :: "'a SimCLR_scheme \<Rightarrow> tensor2 \<Rightarrow> error + (tensor2 \<times> int list)" where
  "info_nce_loss self features =
     and_then (arange (batch_size self)) (\<lambda>ar.
     let labels = eq_outer (ar @ ar);
         features = normalize features;
         similarity_matrix = matmul_T features features;
         mask = eye (length labels)
     in
     and_then (bool_index labels (invert mask)) (\<lambda>flat_labels.
     and_then (view_rows (length labels) flat_labels) (\<lambda>labels.
     and_then (bool_index similarity_matrix (invert mask)) (\<lambda>flat_sim.
     and_then (view_rows (length similarity_matrix) flat_sim) (\<lambda>similarity_matrix.
     and_then (bool_index similarity_matrix (to_bool labels)) (\<lambda>flat_pos.
     and_then (view_rows (length labels) flat_pos) (\<lambda>positives.
     and_then (bool_index similarity_matrix (invert (to_bool labels))) (\<lambda>flat_neg.
     and_then (view_rows (length similarity_matrix) flat_neg) (\<lambda>negatives.
     and_then (cat_dim1 positives negatives) (\<lambda>logits.
     let labels = zeros (length logits);
         logits = map (map (\<lambda>x. x / temperature self)) logits
     in Inr (logits, labels)))))))))))"

text \<open>
  The value of the variable \<open>similarity_matrix\<close> after the matrix product and before
  the diagonal is discarded.
\<close>

definition similarity :: "tensor2 \<Rightarrow> tensor2" where
  "similarity f = (let features = normalize f in matmul_T features features)"

subsection \<open>Notions used to state the properties\<close>

text \<open>
  A batch is valid for an object when it has \<open>2N\<close> rows, \<open>N\<close> being the object's
  \<open>batch_size\<close>, and \<open>N\<close> is at least 2.
\<close>

definition valid_batch :: "'a SimCLR_scheme \<Rightarrow> tensor2 \<Rightarrow> bool" where
  "valid_batch self f \<longleftrightarrow> 2 \<le> batch_size self \<and> int (length f) = 2 * batch_size self"

text \<open>The positive partner of position \<open>i\<close> in a batch of \<open>2n\<close> rows.\<close>

definition partner :: "nat \<Rightarrow> nat \<Rightarrow> nat" where
  "partner n i = (if i < n then i + n else i - n)"

text \<open>The cosine similarity of two vectors, as mathematics defines it.\<close>

definition cosine_similarity :: "tensor1 \<Rightarrow> tensor1 \<Rightarrow> real" where
  "cosine_similarity u v = dot u v / (l2norm u * l2norm v)"

text \<open>
  Entry \<open>(i, j)\<close> of the similarity matrix, the 1-D tensor of \<open>2n\<close> sample numbers the
  method starts from and entry \<open>(i, j)\<close> of the label matrix it derives from them.
\<close>

definition sim :: "tensor2 \<Rightarrow> nat \<Rightarrow> nat \<Rightarrow> real" where
  "sim f i j = dot (normalize_row (f ! i)) (normalize_row (f ! j))"

definition lab :: "nat \<Rightarrow> int list" where
  "lab n = map int [0..<n] @ map int [0..<n]"

definition label_entry :: "nat \<Rightarrow> nat \<Rightarrow> nat \<Rightarrow> real" where
  "label_entry n i j = (if lab n ! j = lab n ! i then 1 else 0)"

text \<open>
  Row \<open>i\<close> of the logits, written with indices: the similarity to the partner, then the
  similarities to the other rows in increasing order of their column, all divided by
  the temperature. That the method computes exactly these rows is
  \<open>info_nce_loss_valid\<close> below.
\<close>

definition logits_row :: "nat \<Rightarrow> real \<Rightarrow> tensor2 \<Rightarrow> nat \<Rightarrow> tensor1" where
  "logits_row n t f i =
     map (\<lambda>j. sim f i j / t) (partner n i # filter (\<lambda>j. j \<noteq> i \<and> j \<noteq> partner n i) [0..<2 * n])"

text \<open>
  A concrete object and the batch of the worked example: two samples, the two views of
  each sample identical, temperature 1.
\<close>

definition demo :: SimCLR where
  "demo = \<lparr>device = ''cpu'', temperature = 1, batch_size = 2, epochs = 1\<rparr>"

definition demo_batch :: tensor2 where
  "demo_batch = [[1, 0], [0, 1], [1, 0], [0, 1]]"

section \<open>Auxiliary facts\<close>

subsection \<open>Boolean indexing followed by \<open>view\<close>\<close>

text \<open>
  The tensors the method indexes have the form \<open>map (\<lambda>i. map (g i) (js i)) ks\<close>: row
  \<open>i\<close> lists the values \<open>g i j\<close> for the columns \<open>j\<close> of \<open>js i\<close>. Indexing with a mask
  of the same form and viewing the result as \<open>length ks\<close> rows filters each \<open>js i\<close>,
  provided every row keeps the same number of columns.
\<close>

lemma select_row_map: "select_row (map g js) (map p js) = map g (filter p js)"
  by (induction js) (simp_all add: select_row_def)

lemma chunks_concat:
  "\<forall>r\<in>set rows. length r = w \<Longrightarrow> chunks w (length rows) (concat rows) = rows"
  by (induction rows) simp_all

lemma length_concat_const:
  "\<forall>r\<in>set rows. length r = w \<Longrightarrow> length (concat rows) = length rows * w"
  by (induction rows) simp_all

lemma view_rows_concat:
  assumes "rows \<noteq> []" and "\<forall>r\<in>set rows. length r = w"
  shows "view_rows (length rows) (concat rows) = Inr rows"
proof -
  have pos: "0 < length rows" using assms(1) by simp
  have len: "length (concat rows) = length rows * w"
    using assms(2) by (rule length_concat_const)
  have "chunks (length (concat rows) div length rows) (length rows) (concat rows) = rows"
    using pos len chunks_concat [OF assms(2)] by simp
  then show ?thesis
    using pos len by (simp add: view_rows_def)
qed

lemma map2_select_rows:
  "map2 select_row (map (\<lambda>i. map (g i) (js i)) ks) (map (\<lambda>i. map (p i) (js i)) ks)
     = map (\<lambda>i. map (g i) (filter (p i) (js i))) ks"
  by (induction ks) (simp_all add: select_row_map)

lemma shape2_index_form:
  "shape2 (map (\<lambda>i. map (g i) (js i)) ks) = shape2 (map (\<lambda>i. map (p i) (js i)) ks)"
  by (cases ks) (simp_all add: shape2_def)

lemma bool_index_rows:
  "bool_index (map (\<lambda>i. map (g i) (js i)) ks) (map (\<lambda>i. map (p i) (js i)) ks)
     = Inr (concat (map (\<lambda>i. map (g i) (filter (p i) (js i))) ks))"
  using shape2_index_form [of g js ks p]
  by (simp add: bool_index_def map2_select_rows del: map_map)

lemma index_then_view:
  assumes "ks \<noteq> []" and "\<forall>i\<in>set ks. length (filter (p i) (js i)) = w"
  shows "and_then (bool_index (map (\<lambda>i. map (g i) (js i)) ks) (map (\<lambda>i. map (p i) (js i)) ks))
           (view_rows (length ks))
         = Inr (map (\<lambda>i. map (g i) (filter (p i) (js i))) ks)"
proof -
  let ?rows = "map (\<lambda>i. map (g i) (filter (p i) (js i))) ks"
  have "view_rows (length ?rows) (concat ?rows) = Inr ?rows"
    using assms by (intro view_rows_concat) auto
  then show ?thesis
    by (simp add: bool_index_rows and_then_def)
qed

subsection \<open>Columns kept by the masks\<close>

lemma filter_eq_upt: "filter (\<lambda>j. j = k) [0..<m] = (if k < m then [k] else [])"
  by (induction m) auto

lemma filter_eq_upt': "filter (\<lambda>j. k = j) [0..<m] = (if k < m then [k] else [])"
  by (induction m) auto

lemma length_filter_neq_upt:
  assumes "i < m"
  shows "length (filter (\<lambda>j. i \<noteq> j) [0..<m]) = m - 1"
proof -
  have "length (filter (\<lambda>j. i = j) [0..<m]) + length (filter (\<lambda>j. \<not> i = j) [0..<m]) = m"
    using sum_length_filter_compl [of "\<lambda>j. i = j" "[0..<m]"] by simp
  then show ?thesis using assms by (simp add: filter_eq_upt')
qed

lemma lab_nth: "i < 2 * n \<Longrightarrow> lab n ! i = int (if i < n then i else i - n)"
  by (simp add: lab_def nth_append)

lemma lab_eq_iff:
  assumes "i < 2 * n" "j < 2 * n"
  shows "lab n ! j = lab n ! i \<longleftrightarrow> j = i \<or> j = partner n i"
  using assms by (auto simp: lab_nth partner_def)

lemma partner_less: "i < 2 * n \<Longrightarrow> partner n i < 2 * n"
  by (auto simp: partner_def)

lemma partner_neq: "0 < n \<Longrightarrow> partner n i \<noteq> i"
  by (auto simp: partner_def)

lemma positives_filter:
  assumes "i < 2 * n"
  shows "filter (\<lambda>j. lab n ! j = lab n ! i) (filter (\<lambda>j. i \<noteq> j) [0..<2 * n]) = [partner n i]"
proof -
  have "filter (\<lambda>j. lab n ! j = lab n ! i) (filter (\<lambda>j. i \<noteq> j) [0..<2 * n])
        = filter (\<lambda>j. j = partner n i) [0..<2 * n]"
    unfolding filter_filter
    by (rule filter_cong) (use assms in \<open>auto simp: lab_eq_iff partner_def\<close>)
  also have "\<dots> = [partner n i]"
    using partner_less [OF assms] by (simp add: filter_eq_upt)
  finally show ?thesis .
qed

lemma negatives_filter:
  assumes "i < 2 * n"
  shows "filter (\<lambda>j. \<not> lab n ! j = lab n ! i) (filter (\<lambda>j. i \<noteq> j) [0..<2 * n])
         = filter (\<lambda>j. j \<noteq> i \<and> j \<noteq> partner n i) [0..<2 * n]"
  unfolding filter_filter
  by (rule filter_cong) (use assms in \<open>auto simp: lab_eq_iff\<close>)

lemma length_negatives:
  assumes "i < 2 * n"
  shows "length (filter (\<lambda>j. j \<noteq> i \<and> j \<noteq> partner n i) [0..<2 * n]) = 2 * n - 2"
proof -
  let ?xs = "filter (\<lambda>j. i \<noteq> j) [0..<2 * n]"
  let ?P = "\<lambda>j. lab n ! j = lab n ! i"
  have "length (filter ?P ?xs) + length (filter (\<lambda>j. \<not> ?P j) ?xs) = length ?xs"
    by (rule sum_length_filter_compl)
  moreover have "length (filter ?P ?xs) = 1"
    by (simp only: positives_filter [OF assms] list.size)
  moreover have "length ?xs = 2 * n - 1"
    using assms by (rule length_filter_neq_upt)
  ultimately show ?thesis
    unfolding negatives_filter [OF assms] by arith
qed

subsection \<open>The tensors of the method in index form\<close>

lemma map_index_form: "map h xs = map (\<lambda>i. h (xs ! i)) [0..<length xs]"
  by (simp add: map_equality_iff)

lemma eq_outer_index_form:
  "eq_outer ls = map (\<lambda>i. map (\<lambda>j. if ls ! j = ls ! i then 1 else 0) [0..<length ls]) [0..<length ls]"
  unfolding eq_outer_def
  by (subst map_index_form) (simp add: map_equality_iff)

lemma matmul_T_index_form:
  "matmul_T (normalize f) (normalize f)
     = map (\<lambda>i. map (\<lambda>j. sim f i j) [0..<length f]) [0..<length f]"
  by (simp add: matmul_T_def normalize_def sim_def map_equality_iff)

lemma invert_eye: "invert (eye m) = map (\<lambda>i. map (\<lambda>j. i \<noteq> j) [0..<m]) [0..<m]"
  by (simp add: invert_def eye_def)

lemma length_lab: "length (lab n) = 2 * n"
  by (simp add: lab_def)

lemma index_view_step:
  assumes "ks \<noteq> []" and "\<forall>i\<in>set ks. length (filter (p i) (js i)) = w" and "k = length ks"
  shows "and_then (bool_index (map (\<lambda>i. map (g i) (js i)) ks) (map (\<lambda>i. map (p i) (js i)) ks))
           (\<lambda>flat. and_then (view_rows k flat) K)
         = K (map (\<lambda>i. map (g i) (filter (p i) (js i))) ks)"
proof -
  let ?rows = "map (\<lambda>i. map (g i) (filter (p i) (js i))) ks"
  have "view_rows k (concat ?rows) = Inr ?rows"
    using view_rows_concat [of ?rows w] assms by auto
  then show ?thesis
    by (simp add: bool_index_rows and_then_def)
qed

lemma map2_append_rows:
  "map2 (@) (map a ks) (map b ks) = map (\<lambda>i. a i @ b i) ks"
  by (induction ks) simp_all

lemma label_entry_nonzero: "label_entry n i j \<noteq> 0 \<longleftrightarrow> lab n ! j = lab n ! i"
  by (simp add: label_entry_def)

subsection \<open>The result on a batch of \<open>2n\<close> rows\<close>

lemma info_nce_loss_valid:
  assumes n: "0 < n" and bs: "batch_size self = int n" and len: "length f = 2 * n"
  shows "info_nce_loss self f
         = Inr (map (logits_row n (temperature self) f) [0..<2 * n], zeros (2 * n))"
proof -
  let ?N = "2 * n"
  let ?ks = "[0..<?N]"
  let ?off = "\<lambda>i. filter (\<lambda>j. i \<noteq> j) ?ks"
  let ?neg = "\<lambda>i. filter (\<lambda>j. j \<noteq> i \<and> j \<noteq> partner n i) ?ks"
  let ?L0 = "map (\<lambda>i. map (label_entry n i) ?ks) ?ks"
  let ?L1 = "map (\<lambda>i. map (label_entry n i) (?off i)) ?ks"
  let ?S0 = "map (\<lambda>i. map (sim f i) ?ks) ?ks"
  let ?S1 = "map (\<lambda>i. map (sim f i) (?off i)) ?ks"
  let ?P = "map (\<lambda>i. [sim f i (partner n i)]) ?ks"
  let ?Ng = "map (\<lambda>i. map (sim f i) (?neg i)) ?ks"
  let ?nmask = "map (\<lambda>i. map (\<lambda>j. i \<noteq> j) ?ks) ?ks"
  have ks: "?ks \<noteq> []" "?N = length ?ks" using n by simp_all
  have ar: "arange (batch_size self) = Inr (map int [0..<n])"
    by (simp add: arange_def bs)
  have "eq_outer (lab n) = ?L0"
    by (simp add: eq_outer_index_form length_lab label_entry_def [abs_def])
  then have L0: "eq_outer (map int [0..<n] @ map int [0..<n]) = ?L0"
    by (simp only: lab_def)
  have S0: "matmul_T (normalize f) (normalize f) = ?S0"
    by (simp add: matmul_T_index_form len)
  have mask: "invert (eye (length ?L0)) = ?nmask"
    by (simp add: invert_eye)
  have off_len: "\<forall>i\<in>set ?ks. length (filter (\<lambda>j. i \<noteq> j) ?ks) = ?N - 1"
    by (simp add: length_filter_neq_upt)
  have stepL: "and_then (bool_index ?L0 ?nmask) (\<lambda>flat. and_then (view_rows (length ?L0) flat) K)
               = K ?L1" for K :: "tensor2 \<Rightarrow> error + (tensor2 \<times> int list)"
    using index_view_step [of ?ks "\<lambda>i j. i \<noteq> j" "\<lambda>i. ?ks" "?N - 1" "length ?L0" "label_entry n" K]
      ks off_len by simp
  have stepS: "and_then (bool_index ?S0 ?nmask) (\<lambda>flat. and_then (view_rows (length ?S0) flat) K)
               = K ?S1" for K :: "tensor2 \<Rightarrow> error + (tensor2 \<times> int list)"
    using index_view_step [of ?ks "\<lambda>i j. i \<noteq> j" "\<lambda>i. ?ks" "?N - 1" "length ?S0" "sim f" K]
      ks off_len by simp
  have bL1: "to_bool ?L1 = map (\<lambda>i. map (\<lambda>j. label_entry n i j \<noteq> 0) (?off i)) ?ks"
    by (simp add: to_bool_def)
  have ibL1: "invert (to_bool ?L1) = map (\<lambda>i. map (\<lambda>j. \<not> label_entry n i j \<noteq> 0) (?off i)) ?ks"
    by (simp add: to_bool_def invert_def)
  have pos_f: "filter (\<lambda>j. label_entry n i j \<noteq> 0) (?off i) = [partner n i]" if "i \<in> set ?ks" for i
    using that positives_filter [of i n] by (simp only: label_entry_nonzero) simp
  have neg_f: "filter (\<lambda>j. \<not> label_entry n i j \<noteq> 0) (?off i) = ?neg i" if "i \<in> set ?ks" for i
    using that negatives_filter [of i n] by (simp only: label_entry_nonzero) simp
  have P: "map (\<lambda>i. map (sim f i) (filter (\<lambda>j. label_entry n i j \<noteq> 0) (?off i))) ?ks = ?P"
    by (rule map_cong [OF refl]) (simp only: pos_f list.map)
  have Ng: "map (\<lambda>i. map (sim f i) (filter (\<lambda>j. \<not> label_entry n i j \<noteq> 0) (?off i))) ?ks = ?Ng"
    by (rule map_cong [OF refl]) (simp only: neg_f)
  have stepP: "and_then (bool_index ?S1 (to_bool ?L1))
                 (\<lambda>flat. and_then (view_rows (length ?L1) flat) K) = K ?P"
    for K :: "tensor2 \<Rightarrow> error + (tensor2 \<times> int list)"
  proof -
    have "\<forall>i\<in>set ?ks. length (filter (\<lambda>j. label_entry n i j \<noteq> 0) (?off i)) = 1"
      using pos_f by simp
    from index_view_step [OF ks(1) this, of "length ?L1" "sim f" K]
    show ?thesis unfolding bL1 P by simp
  qed
  have stepN: "and_then (bool_index ?S1 (invert (to_bool ?L1)))
                 (\<lambda>flat. and_then (view_rows (length ?S1) flat) K) = K ?Ng"
    for K :: "tensor2 \<Rightarrow> error + (tensor2 \<times> int list)"
  proof -
    have "\<forall>i\<in>set ?ks. length (filter (\<lambda>j. \<not> label_entry n i j \<noteq> 0) (?off i)) = ?N - 2"
      using neg_f length_negatives [of _ n] by simp
    from index_view_step [OF ks(1) this, of "length ?S1" "sim f" K]
    show ?thesis unfolding ibL1 Ng by simp
  qed
  have cat: "cat_dim1 ?P ?Ng = Inr (map (\<lambda>i. sim f i (partner n i) # map (sim f i) (?neg i)) ?ks)"
    by (simp add: cat_dim1_def map2_append_rows del: map_map)
  have fin: "map (map (\<lambda>x. x / temperature self))
               (map (\<lambda>i. sim f i (partner n i) # map (sim f i) (?neg i)) ?ks)
             = map (logits_row n (temperature self) f) ?ks"
    by (simp add: logits_row_def)
  show ?thesis
    unfolding info_nce_loss_def ar and_then_def [of "Inr _"] sum.case Let_def L0 S0 mask
      stepL stepS stepP stepN cat
    by (simp only: fin length_map length_upt) (simp add: zeros_def)
qed

subsection \<open>Similarities and the length of a row\<close>

lemma valid_batchD:
  assumes "valid_batch self f"
  shows "0 < nat (batch_size self)" and "batch_size self = int (nat (batch_size self))"
    and "length f = 2 * nat (batch_size self)"
  using assms by (auto simp: valid_batch_def)

lemma similarity_nth:
  "i < length f \<Longrightarrow> j < length f \<Longrightarrow> similarity f ! i ! j = sim f i j"
  by (simp add: similarity_def Let_def matmul_T_index_form)

lemma length_similarity: "length (similarity f) = length f"
  by (simp add: similarity_def matmul_T_def normalize_def)

lemma dot_commute: "dot u v = dot v u"
  unfolding dot_def
proof (induction u arbitrary: v)
  case Nil
  then show ?case by simp
next
  case (Cons x xs)
  then show ?case by (cases v) (simp_all add: mult.commute)
qed

lemma dot_scaled:
  "dot (map (\<lambda>x. x / a) u) (map (\<lambda>x. x / b) v) = dot u v / (a * b)"
  unfolding dot_def
proof (induction u arbitrary: v)
  case Nil
  then show ?case by simp
next
  case (Cons x xs)
  then show ?case by (cases v) (simp_all add: add_divide_distrib)
qed

lemma dot_normalize_row:
  "dot (normalize_row u) (normalize_row v)
     = dot u v / (max (l2norm u) eps * max (l2norm v) eps)"
  by (simp add: normalize_row_def dot_scaled)

lemma length_logits_row:
  assumes "0 < n" and "i < 2 * n"
  shows "length (logits_row n t f i) = 2 * n - 1"
  using assms length_negatives [of i n] by (simp add: logits_row_def) arith

subsection \<open>Calls that raise\<close>

lemma info_nce_loss_nonpositive:
  assumes "batch_size self \<le> 0"
  shows "info_nce_loss self f = Inl RuntimeError"
proof (cases "batch_size self < 0")
  case True
  then show ?thesis by (simp add: info_nce_loss_def arange_def and_then_def)
next
  case False
  with assms have "batch_size self = 0" by simp
  then show ?thesis
    by (simp add: info_nce_loss_def arange_def and_then_def eq_outer_def eye_def invert_def
        bool_index_def shape2_def view_rows_def Let_def)
qed

lemma bool_index_shape_mismatch:
  "shape2 X \<noteq> shape2 m \<Longrightarrow> bool_index X m = Inl IndexError"
  by (simp add: bool_index_def)

lemma info_nce_loss_mismatch:
  assumes n: "0 < n" and bs: "batch_size self = int n" and len: "length f \<noteq> 2 * n"
  shows "info_nce_loss self f = Inl IndexError"
proof -
  let ?N = "2 * n"
  let ?ks = "[0..<?N]"
  let ?off = "\<lambda>i. filter (\<lambda>j. i \<noteq> j) ?ks"
  let ?L0 = "map (\<lambda>i. map (label_entry n i) ?ks) ?ks"
  let ?L1 = "map (\<lambda>i. map (label_entry n i) (?off i)) ?ks"
  let ?S0 = "map (\<lambda>i. map (sim f i) [0..<length f]) [0..<length f]"
  let ?nmask = "map (\<lambda>i. map (\<lambda>j. i \<noteq> j) ?ks) ?ks"
  have ks: "?ks \<noteq> []" "?N = length ?ks" using n by simp_all
  have ar: "arange (batch_size self) = Inr (map int [0..<n])"
    by (simp add: arange_def bs)
  have "eq_outer (lab n) = ?L0"
    by (simp add: eq_outer_index_form length_lab label_entry_def [abs_def])
  then have L0: "eq_outer (map int [0..<n] @ map int [0..<n]) = ?L0"
    by (simp only: lab_def)
  have S0: "matmul_T (normalize f) (normalize f) = ?S0"
    by (simp add: matmul_T_index_form)
  have mask: "invert (eye (length ?L0)) = ?nmask"
    by (simp add: invert_eye)
  have off_len: "\<forall>i\<in>set ?ks. length (filter (\<lambda>j. i \<noteq> j) ?ks) = ?N - 1"
    by (simp add: length_filter_neq_upt)
  have stepL: "and_then (bool_index ?L0 ?nmask) (\<lambda>flat. and_then (view_rows (length ?L0) flat) K)
               = K ?L1" for K :: "tensor2 \<Rightarrow> error + (tensor2 \<times> int list)"
    using index_view_step [of ?ks "\<lambda>i j. i \<noteq> j" "\<lambda>i. ?ks" "?N - 1" "length ?L0" "label_entry n" K]
      ks off_len by simp
  have "shape2 ?S0 \<noteq> shape2 ?nmask"
    using len by (simp add: shape2_def)
  then have stepS: "bool_index ?S0 ?nmask = Inl IndexError"
    by (rule bool_index_shape_mismatch)
  show ?thesis
    unfolding info_nce_loss_def ar and_then_def [of "Inr _"] sum.case Let_def L0 S0 mask
      stepL stepS
    by (simp add: and_then_def)
qed

subsection \<open>Evaluation on concrete batches\<close>

lemma info_nce_loss_valid_batch:
  assumes "valid_batch self f"
  shows "info_nce_loss self f
         = Inr (map (logits_row (nat (batch_size self)) (temperature self) f)
                  [0..<2 * nat (batch_size self)],
                zeros (2 * nat (batch_size self)))"
  using valid_batchD [OF assms] by (rule info_nce_loss_valid)

lemma demo_simps:
  "temperature demo = 1" "batch_size demo = 2" "length demo_batch = 4"
  "valid_batch demo demo_batch"
  by (simp_all add: demo_def demo_batch_def valid_batch_def)

lemma demo_rows:
  "demo_batch ! 0 = [1, 0]" "demo_batch ! 1 = [0, 1]" "demo_batch ! 2 = [1, 0]"
  "demo_batch ! 3 = [0, 1]" "demo_batch ! Suc 0 = [0, 1]"
  by (simp_all add: demo_batch_def)

lemma l2norm_single: "l2norm [x] = \<bar>x\<bar>"
  by (simp add: l2norm_def)

lemma l2norm_unit: "l2norm [1, 0] = 1" "l2norm [0, 1] = 1"
  by (simp_all add: l2norm_def)

lemma upt_small: "[0..<4] = [0, 1, 2, 3]" "[0..<2] = [0, 1]"
  by (simp_all add: upt_rec)

lemma sim_eval:
  "sim f i j = dot (f ! i) (f ! j) / (max (l2norm (f ! i)) eps * max (l2norm (f ! j)) eps)"
  by (simp add: sim_def dot_normalize_row)

lemmas eval_simps = upt_small logits_row_def sim_eval partner_def l2norm_single l2norm_unit
  eps_def dot_def zeros_def

lemma logits_row_similarity:
  assumes "length f = 2 * n" and "i < 2 * n"
  shows "logits_row n t f i
         = map (\<lambda>j. similarity f ! i ! j / t)
             (partner n i # filter (\<lambda>j. j \<noteq> i \<and> j \<noteq> partner n i) [0..<2 * n])"
  unfolding logits_row_def
  by (rule map_cong [OF refl]) (use assms partner_less [of i n] in \<open>auto simp: similarity_nth\<close>)

lemma columns_of_row:
  assumes "0 < n" and "i < 2 * n"
  shows "distinct (partner n i # filter (\<lambda>j. j \<noteq> i \<and> j \<noteq> partner n i) [0..<2 * n])"
    and "set (partner n i # filter (\<lambda>j. j \<noteq> i \<and> j \<noteq> partner n i) [0..<2 * n])
         = {0..<2 * n} - {i}"
  using assms partner_less [of i n] partner_neq [of n i] by auto

section \<open>The properties of the specification\<close>

text \<open>
  Claim C1. For a valid batch of \<open>2N\<close> embeddings (\<open>N \<ge> 2\<close>) and a positive
  temperature the method returns a result: the logits have \<open>2N\<close> rows of \<open>2N - 1\<close>
  entries each, and the labels are \<open>2N\<close> zeros.
\<close>

theorem score_shape_and_labels:
  assumes "valid_batch self f" and "0 < temperature self"
  shows "\<exists>logits. info_nce_loss self f = Inr (logits, replicate (2 * nat (batch_size self)) 0)
           \<and> length logits = 2 * nat (batch_size self)
           \<and> (\<forall>row\<in>set logits. length row = 2 * nat (batch_size self) - 1)"
proof -
  let ?n = "nat (batch_size self)"
  let ?logits = "map (logits_row ?n (temperature self) f) [0..<2 * ?n]"
  have "info_nce_loss self f = Inr (?logits, replicate (2 * ?n) 0)"
    using info_nce_loss_valid_batch [OF assms(1)] by (simp add: zeros_def)
  moreover have "length ?logits = 2 * ?n" by simp
  moreover have "\<forall>row\<in>set ?logits. length row = 2 * ?n - 1"
    using valid_batchD(1) [OF assms(1)] by (auto simp: length_logits_row)
  ultimately show ?thesis by blast
qed

text \<open>
  The worked example (\<open>N = 2\<close>, temperature 1) satisfies the hypotheses of C1.
\<close>

theorem score_shape_and_labels_witness:
  "valid_batch demo demo_batch \<and> 0 < temperature demo
   \<and> (\<exists>logits. info_nce_loss demo demo_batch = Inr (logits, [0, 0, 0, 0])
         \<and> length logits = 4 \<and> length (logits ! 0) = 3 \<and> length (logits ! 3) = 3)"
proof -
  have v: "valid_batch demo demo_batch" and t: "0 < temperature demo"
    by (simp_all add: demo_simps)
  from score_shape_and_labels [OF v t] obtain logits where
    "info_nce_loss demo demo_batch = Inr (logits, replicate (2 * nat (batch_size demo)) 0)"
    "length logits = 2 * nat (batch_size demo)"
    "\<forall>row\<in>set logits. length row = 2 * nat (batch_size demo) - 1"
    by blast
  then have "info_nce_loss demo demo_batch = Inr (logits, [0, 0, 0, 0])
      \<and> length logits = 4 \<and> length (logits ! 0) = 3 \<and> length (logits ! 3) = 3"
    by (simp add: demo_simps numeral_eq_Suc)
  with v t show ?thesis by blast
qed

text \<open>
  Claim C2 as stated fails on embeddings shorter than the \<open>eps\<close> of the
  normalisation. Four copies of the one-dimensional vector \<open>1e-13\<close> make a valid
  batch; the cosine similarity of a vector with itself is 1, but every row is divided by
  \<open>eps = 1e-12\<close> instead of its norm, so every logit is \<open>1/100\<close>.
\<close>

theorem positive_entry_counterexample:
  "valid_batch \<lparr>device = ''cpu'', temperature = 1, batch_size = 2, epochs = 1\<rparr>
     [[1 / 10 ^ 13], [1 / 10 ^ 13], [1 / 10 ^ 13], [1 / 10 ^ 13]]
   \<and> info_nce_loss \<lparr>device = ''cpu'', temperature = 1, batch_size = 2, epochs = 1\<rparr>
       [[1 / 10 ^ 13], [1 / 10 ^ 13], [1 / 10 ^ 13], [1 / 10 ^ 13]]
     = Inr ([[1 / 100, 1 / 100, 1 / 100], [1 / 100, 1 / 100, 1 / 100],
             [1 / 100, 1 / 100, 1 / 100], [1 / 100, 1 / 100, 1 / 100]], [0, 0, 0, 0])
   \<and> cosine_similarity [1 / 10 ^ 13] [1 / 10 ^ 13] / 1 = 1"
proof -
  let ?s = "\<lparr>device = ''cpu'', temperature = 1, batch_size = 2, epochs = 1\<rparr>"
  let ?f = "[[1 / 10 ^ 13], [1 / 10 ^ 13], [1 / 10 ^ 13], [1 / 10 ^ 13 :: real]]"
  have "valid_batch ?s ?f" by (simp add: valid_batch_def)
  moreover have "info_nce_loss ?s ?f
     = Inr ([[1 / 100, 1 / 100, 1 / 100], [1 / 100, 1 / 100, 1 / 100],
             [1 / 100, 1 / 100, 1 / 100], [1 / 100, 1 / 100, 1 / 100]], [0, 0, 0, 0])"
    by (subst info_nce_loss_valid [of 2]) (simp_all add: eval_simps numeral_eq_Suc)
  moreover have "cosine_similarity [1 / 10 ^ 13] [1 / 10 ^ 13] / 1 = 1"
    by (simp add: cosine_similarity_def l2norm_single dot_def)
  ultimately show ?thesis by blast
qed

text \<open>
  Claim C2, amended. For a valid batch, a positive temperature and every anchor \<open>i\<close>,
  entry 0 of logits row \<open>i\<close> is entry \<open>(i, p)\<close> of the similarity matrix divided by the
  temperature, where \<open>p\<close> is the partner of \<open>i\<close>: \<open>i + N\<close> when \<open>i < N\<close>, \<open>i - N\<close>
  otherwise. The similarity matrix holds the dot products of the rows as
  \<open>F.normalize\<close> leaves them, each divided by the larger of its norm and \<open>1e-12\<close>.
\<close>

theorem positive_entry_first:
  assumes "valid_batch self f" and "0 < temperature self"
    and "i < 2 * nat (batch_size self)"
  shows "\<exists>logits labels. info_nce_loss self f = Inr (logits, labels)
           \<and> logits ! i ! 0
               = similarity f ! i ! (if i < nat (batch_size self) then i + nat (batch_size self)
                                      else i - nat (batch_size self))
                  / temperature self"
proof -
  let ?n = "nat (batch_size self)"
  let ?logits = "map (logits_row ?n (temperature self) f) [0..<2 * ?n]"
  note vb = valid_batchD [OF assms(1)]
  have "?logits ! i ! 0 = sim f i (partner ?n i) / temperature self"
    using assms(3) by (simp add: logits_row_def)
  also have "sim f i (partner ?n i) = similarity f ! i ! partner ?n i"
    using assms(3) partner_less [OF assms(3)] vb(3) by (simp add: similarity_nth)
  finally have "?logits ! i ! 0
      = similarity f ! i ! (if i < ?n then i + ?n else i - ?n) / temperature self"
    by (simp only: partner_def)
  then show ?thesis
    using info_nce_loss_valid_batch [OF assms(1)] by blast
qed

text \<open>
  Anchors 1 and 2 of the worked example: their partners are the rows 3 and 0.
\<close>

theorem positive_entry_first_witness:
  "valid_batch demo demo_batch \<and> 0 < temperature demo
   \<and> (\<exists>logits labels. info_nce_loss demo demo_batch = Inr (logits, labels)
        \<and> logits ! 1 ! 0 = similarity demo_batch ! 1 ! 3 / temperature demo)
   \<and> (\<exists>logits labels. info_nce_loss demo demo_batch = Inr (logits, labels)
        \<and> logits ! 2 ! 0 = similarity demo_batch ! 2 ! 0 / temperature demo)"
proof -
  have h: "valid_batch demo demo_batch" "0 < temperature demo"
    by (simp_all add: demo_simps)
  have i: "(1::nat) < 2 * nat (batch_size demo)" "(2::nat) < 2 * nat (batch_size demo)"
    by (simp_all add: demo_simps)
  from positive_entry_first [OF h i(1)] positive_entry_first [OF h i(2)] h
  show ?thesis by (simp add: demo_simps eval_nat_numeral)
qed

text \<open>
  Claim C3 as stated fails for \<open>N = 1\<close>: a batch of two embeddings is not rejected.
  The boolean index for the negatives selects nothing, \<open>view(2, -1)\<close> turns the empty
  tensor into one of shape \<open>(2, 0)\<close>, and the method returns one logit per row.
\<close>

theorem single_pair_counterexample:
  "info_nce_loss \<lparr>device = ''cpu'', temperature = 1, batch_size = 1, epochs = 1\<rparr>
     [[1, 0], [0, 1]] = Inr ([[0], [0]], [0, 0])"
  by (subst info_nce_loss_valid [of 1]) (simp_all add: eval_simps numeral_eq_Suc)

text \<open>
  Claim C3, amended. When the number of embeddings is odd or zero, and more generally
  whenever it differs from \<open>2 * batch_size\<close>, the call ends with an exception of the
  tensor library and returns no result. The method has no check of its own and no
  error of its own: the exception is raised where a shape does not fit, after the
  normalisation and the matrix product. Of the inputs the claim names, only the batch of
  two embeddings with \<open>batch_size = 1\<close> is accepted.
\<close>

theorem mismatched_length_fails:
  assumes "odd (length f) \<or> length f = 0 \<or> int (length f) \<noteq> 2 * batch_size self"
  shows "\<exists>e. info_nce_loss self f = Inl e"
proof (cases "batch_size self \<le> 0")
  case True
  then show ?thesis by (simp add: info_nce_loss_nonpositive)
next
  case False
  then have n: "0 < nat (batch_size self)" "batch_size self = int (nat (batch_size self))"
    by simp_all
  have "length f \<noteq> 2 * nat (batch_size self)"
  proof
    assume eq: "length f = 2 * nat (batch_size self)"
    then have "even (length f)" and "length f \<noteq> 0" and "int (length f) = 2 * batch_size self"
      using n by simp_all
    with assms show False by simp
  qed
  with n have "info_nce_loss self f = Inl IndexError"
    by (rule info_nce_loss_mismatch)
  then show ?thesis by blast
qed

text \<open>
  Three embeddings for \<open>batch_size = 2\<close>: the length is odd, and the call ends with the
  \<open>IndexError\<close> of indexing the \<open>3 \<times> 3\<close> similarity matrix with the \<open>4 \<times> 4\<close> mask.
  No embedding for \<open>batch_size = 0\<close>: the call ends with the \<open>RuntimeError\<close> of
  \<open>view(0, -1)\<close> on the empty label matrix.
\<close>

theorem mismatched_length_fails_witness:
  "odd (length [[1, 0], [0, 1], [1, 0 :: real]])
   \<and> info_nce_loss \<lparr>device = ''cpu'', temperature = 1, batch_size = 2, epochs = 1\<rparr>
       [[1, 0], [0, 1], [1, 0]] = Inl IndexError
   \<and> length ([] :: tensor2) = 0
   \<and> info_nce_loss \<lparr>device = ''cpu'', temperature = 1, batch_size = 0, epochs = 1\<rparr> []
       = Inl RuntimeError"
proof -
  let ?s = "\<lparr>device = ''cpu'', temperature = 1, batch_size = 2, epochs = 1\<rparr>"
  let ?z = "\<lparr>device = ''cpu'', temperature = 1, batch_size = 0, epochs = 1\<rparr>"
  let ?f = "[[1, 0], [0, 1], [1, 0 :: real]]"
  have odd3: "odd (length ?f)" by simp
  then have "\<exists>e. info_nce_loss ?s ?f = Inl e"
    using mismatched_length_fails [of ?f ?s] by blast
  moreover have "info_nce_loss ?s ?f = Inl IndexError"
    by (rule info_nce_loss_mismatch [of 2]) simp_all
  moreover have "\<exists>e. info_nce_loss ?z [] = Inl e"
    using mismatched_length_fails [of "[]" ?z] by simp
  moreover have "info_nce_loss ?z [] = Inl RuntimeError"
    by (rule info_nce_loss_nonpositive) simp
  ultimately show ?thesis using odd3 by simp
qed

text \<open>
  Claim C4 as stated fails: with temperature \<open>-1\<close> the worked example's batch is
  scored as with any other temperature, every similarity divided by \<open>-1\<close>.
\<close>

theorem negative_temperature_counterexample:
  "valid_batch \<lparr>device = ''cpu'', temperature = - 1, batch_size = 2, epochs = 1\<rparr>
     [[1, 0], [0, 1], [1, 0], [0, 1]]
   \<and> info_nce_loss \<lparr>device = ''cpu'', temperature = - 1, batch_size = 2, epochs = 1\<rparr>
       [[1, 0], [0, 1], [1, 0], [0, 1]]
     = Inr ([[- 1, 0, 0], [- 1, 0, 0], [- 1, 0, 0], [- 1, 0, 0]], [0, 0, 0, 0])"
proof -
  let ?s = "\<lparr>device = ''cpu'', temperature = - 1, batch_size = 2, epochs = 1\<rparr>"
  let ?f = "[[1, 0], [0, 1], [1, 0], [0, 1 :: real]]"
  have "valid_batch ?s ?f" by (simp add: valid_batch_def)
  moreover have "info_nce_loss ?s ?f
     = Inr ([[- 1, 0, 0], [- 1, 0, 0], [- 1, 0, 0], [- 1, 0, 0]], [0, 0, 0, 0])"
    by (subst info_nce_loss_valid [of 2]) (simp_all add: eval_simps numeral_eq_Suc)
  ultimately show ?thesis by blast
qed

text \<open>
  Claim C4, amended. The method does not check the temperature: for a valid batch and a
  temperature \<open>\<le> 0\<close> it returns logits of shape \<open>2N \<times> (2N - 1)\<close> and \<open>2N\<close>
  zero labels, and for a negative temperature the entries are the similarities divided
  by it.
\<close>

theorem nonpositive_temperature_accepted:
  assumes "valid_batch self f" and "temperature self \<le> 0"
  shows "\<exists>logits. info_nce_loss self f = Inr (logits, replicate (2 * nat (batch_size self)) 0)
           \<and> length logits = 2 * nat (batch_size self)
           \<and> (\<forall>row\<in>set logits. length row = 2 * nat (batch_size self) - 1)
           \<and> (temperature self < 0 \<longrightarrow>
                (\<forall>i<2 * nat (batch_size self).
                   logits ! i = logits_row (nat (batch_size self)) (temperature self) f i))"
proof -
  let ?n = "nat (batch_size self)"
  let ?logits = "map (logits_row ?n (temperature self) f) [0..<2 * ?n]"
  have "info_nce_loss self f = Inr (?logits, replicate (2 * ?n) 0)"
    using info_nce_loss_valid_batch [OF assms(1)] by (simp add: zeros_def)
  moreover have "length ?logits = 2 * ?n" by simp
  moreover have "\<forall>row\<in>set ?logits. length row = 2 * ?n - 1"
    using valid_batchD(1) [OF assms(1)] by (auto simp: length_logits_row)
  moreover have "\<forall>i<2 * ?n. ?logits ! i = logits_row ?n (temperature self) f i"
    by simp
  ultimately show ?thesis by blast
qed

text \<open>
  The worked example at temperature \<open>-1\<close>.
\<close>

theorem nonpositive_temperature_accepted_witness:
  "valid_batch (demo\<lparr>temperature := - 1\<rparr>) demo_batch
   \<and> temperature (demo\<lparr>temperature := - 1\<rparr>) \<le> 0
   \<and> (\<exists>logits. info_nce_loss (demo\<lparr>temperature := - 1\<rparr>) demo_batch = Inr (logits, [0, 0, 0, 0])
         \<and> length logits = 4 \<and> length (logits ! 0) = 3 \<and> logits ! 0 = [- 1, 0, 0])"
proof -
  let ?s = "demo\<lparr>temperature := - 1\<rparr>"
  have v: "valid_batch ?s demo_batch" and t: "temperature ?s \<le> 0"
    by (simp_all add: demo_def demo_batch_def valid_batch_def)
  from nonpositive_temperature_accepted [OF v t] obtain logits where
    r: "info_nce_loss ?s demo_batch = Inr (logits, replicate (2 * nat (batch_size ?s)) 0)"
    and l: "length logits = 2 * nat (batch_size ?s)"
    and e: "temperature ?s < 0 \<longrightarrow>
              (\<forall>i<2 * nat (batch_size ?s).
                 logits ! i = logits_row (nat (batch_size ?s)) (temperature ?s) demo_batch i)"
    by blast
  have bs: "nat (batch_size ?s) = 2" "temperature ?s = - 1"
    by (simp_all add: demo_def)
  from e have "logits ! 0 = logits_row 2 (- 1) demo_batch 0"
    unfolding bs by simp
  then have "logits ! 0 = [- 1, 0, 0]"
    by (simp add: eval_simps demo_batch_def)
  with r l have "info_nce_loss ?s demo_batch = Inr (logits, [0, 0, 0, 0])
      \<and> length logits = 4 \<and> length (logits ! 0) = 3 \<and> logits ! 0 = [- 1, 0, 0]"
    unfolding bs by (simp add: numeral_eq_Suc)
  with v t show ?thesis by blast
qed

text \<open>
  Claim C5. For a valid batch, row \<open>i\<close> of the logits is made of the entries
  \<open>(i, j)\<close> of the similarity matrix, divided by the temperature, for a list of columns
  \<open>j\<close> that holds every column other than \<open>i\<close> exactly once and never \<open>i\<close> itself.
\<close>

theorem self_excluded:
  assumes "valid_batch self f" and "0 < temperature self"
  shows "\<exists>logits labels. info_nce_loss self f = Inr (logits, labels)
           \<and> (\<forall>i<2 * nat (batch_size self). \<exists>js.
                 logits ! i = map (\<lambda>j. similarity f ! i ! j / temperature self) js
                 \<and> length js = 2 * nat (batch_size self) - 1
                 \<and> distinct js
                 \<and> set js = {0..<2 * nat (batch_size self)} - {i})"
proof -
  let ?n = "nat (batch_size self)"
  let ?t = "temperature self"
  let ?logits = "map (logits_row ?n ?t f) [0..<2 * ?n]"
  let ?js = "\<lambda>i. partner ?n i # filter (\<lambda>j. j \<noteq> i \<and> j \<noteq> partner ?n i) [0..<2 * ?n]"
  note vb = valid_batchD [OF assms(1)]
  have "\<exists>js. ?logits ! i = map (\<lambda>j. similarity f ! i ! j / ?t) js
            \<and> length js = 2 * ?n - 1 \<and> distinct js \<and> set js = {0..<2 * ?n} - {i}"
    if i: "i < 2 * ?n" for i
  proof -
    have "?logits ! i = map (\<lambda>j. similarity f ! i ! j / ?t) (?js i)"
      using i logits_row_similarity [OF vb(3) i] by simp
    moreover have "length (?js i) = 2 * ?n - 1"
      using length_logits_row [OF vb(1) i, of ?t f] by (simp add: logits_row_def)
    moreover note columns_of_row [OF vb(1) i]
    ultimately show ?thesis by blast
  qed
  then show ?thesis
    using info_nce_loss_valid_batch [OF assms(1)] by blast
qed

text \<open>
  Row 1 of the worked example.
\<close>

theorem self_excluded_witness:
  "valid_batch demo demo_batch \<and> 0 < temperature demo
   \<and> (\<exists>logits labels js. info_nce_loss demo demo_batch = Inr (logits, labels)
         \<and> logits ! 1 = map (\<lambda>j. similarity demo_batch ! 1 ! j / temperature demo) js
         \<and> length js = 3 \<and> distinct js \<and> set js = {0..<4} - {1})"
proof -
  have v: "valid_batch demo demo_batch" and t: "0 < temperature demo"
    by (simp_all add: demo_simps)
  from self_excluded [OF v t] obtain logits labels where
    r: "info_nce_loss demo demo_batch = Inr (logits, labels)"
    and a: "\<forall>i<2 * nat (batch_size demo). \<exists>js.
                 logits ! i = map (\<lambda>j. similarity demo_batch ! i ! j / temperature demo) js
                 \<and> length js = 2 * nat (batch_size demo) - 1
                 \<and> distinct js
                 \<and> set js = {0..<2 * nat (batch_size demo)} - {i}"
    by blast
  have "(1::nat) < 2 * nat (batch_size demo)" by (simp add: demo_simps)
  with a obtain js where
    "logits ! 1 = map (\<lambda>j. similarity demo_batch ! 1 ! j / temperature demo) js"
    "length js = 2 * nat (batch_size demo) - 1" "distinct js"
    "set js = {0..<2 * nat (batch_size demo)} - {1}"
    by blast
  then have "logits ! 1 = map (\<lambda>j. similarity demo_batch ! 1 ! j / temperature demo) js
      \<and> length js = 3 \<and> distinct js \<and> set js = {0..<4} - {1}"
    by (simp add: demo_simps)
  with v t r show ?thesis by blast
qed

text \<open>
  Claim C6. For a valid batch, the entries of logits row \<open>i\<close> after the first are the
  \<open>2N - 2\<close> similarities \<open>(i, j)\<close> with \<open>j\<close> neither \<open>i\<close> nor its partner, in
  increasing order of the column \<open>j\<close>.
\<close>

theorem negatives_keep_column_order:
  assumes "valid_batch self f" and "0 < temperature self"
  shows "\<exists>logits labels. info_nce_loss self f = Inr (logits, labels)
           \<and> (\<forall>i<2 * nat (batch_size self).
                 drop 1 (logits ! i)
                   = map (\<lambda>j. similarity f ! i ! j / temperature self)
                       (filter (\<lambda>j. j \<noteq> i \<and> j \<noteq> partner (nat (batch_size self)) i)
                          [0..<2 * nat (batch_size self)])
                 \<and> length (drop 1 (logits ! i)) = 2 * nat (batch_size self) - 2)"
proof -
  let ?n = "nat (batch_size self)"
  let ?t = "temperature self"
  let ?logits = "map (logits_row ?n ?t f) [0..<2 * ?n]"
  note vb = valid_batchD [OF assms(1)]
  have "drop 1 (?logits ! i)
          = map (\<lambda>j. similarity f ! i ! j / ?t)
              (filter (\<lambda>j. j \<noteq> i \<and> j \<noteq> partner ?n i) [0..<2 * ?n])
        \<and> length (drop 1 (?logits ! i)) = 2 * ?n - 2"
    if i: "i < 2 * ?n" for i
    using i logits_row_similarity [OF vb(3) i, of ?t] length_negatives [OF i] by simp
  then show ?thesis
    using info_nce_loss_valid_batch [OF assms(1)] by blast
qed

text \<open>
  Row 1 of the worked example: its negatives come from the columns 0 and 2, in this
  order.
\<close>

theorem negatives_keep_column_order_witness:
  "valid_batch demo demo_batch \<and> 0 < temperature demo
   \<and> (\<exists>logits labels. info_nce_loss demo demo_batch = Inr (logits, labels)
         \<and> drop 1 (logits ! 1)
             = map (\<lambda>j. similarity demo_batch ! 1 ! j / temperature demo) [0, 2]
         \<and> length (drop 1 (logits ! 1)) = 2)"
proof -
  have v: "valid_batch demo demo_batch" and t: "0 < temperature demo"
    by (simp_all add: demo_simps)
  from negatives_keep_column_order [OF v t] obtain logits labels where
    r: "info_nce_loss demo demo_batch = Inr (logits, labels)"
    and a: "\<forall>i<2 * nat (batch_size demo).
                 drop 1 (logits ! i)
                   = map (\<lambda>j. similarity demo_batch ! i ! j / temperature demo)
                       (filter (\<lambda>j. j \<noteq> i \<and> j \<noteq> partner (nat (batch_size demo)) i)
                          [0..<2 * nat (batch_size demo)])
                 \<and> length (drop 1 (logits ! i)) = 2 * nat (batch_size demo) - 2"
    by blast
  have "(1::nat) < 2 * nat (batch_size demo)" by (simp add: demo_simps)
  with a have "drop 1 (logits ! 1)
                   = map (\<lambda>j. similarity demo_batch ! 1 ! j / temperature demo)
                       (filter (\<lambda>j. j \<noteq> 1 \<and> j \<noteq> partner (nat (batch_size demo)) 1)
                          [0..<2 * nat (batch_size demo)])
                 \<and> length (drop 1 (logits ! 1)) = 2 * nat (batch_size demo) - 2"
    by blast
  then have "drop 1 (logits ! 1)
             = map (\<lambda>j. similarity demo_batch ! 1 ! j / temperature demo) [0, 2]
         \<and> length (drop 1 (logits ! 1)) = 2"
    by (simp add: demo_simps partner_def upt_small)
  with v t r show ?thesis by blast
qed

text \<open>
  Claim C7. The similarity matrix computed before masking is symmetric.
\<close>

theorem similarity_symmetric:
  assumes "i < length f" and "j < length f"
  shows "similarity f ! i ! j = similarity f ! j ! i"
  using assms by (simp add: similarity_nth sim_def dot_commute)

text \<open>
  Entries \<open>(0, 2)\<close> and \<open>(2, 0)\<close> of the worked example.
\<close>

theorem similarity_symmetric_witness:
  "(0::nat) < length demo_batch \<and> (2::nat) < length demo_batch
   \<and> similarity demo_batch ! 0 ! 2 = similarity demo_batch ! 2 ! 0"
  using similarity_symmetric [of 0 demo_batch 2] by (simp add: demo_simps)

end
